theory Spec2Isabelle
  imports Complex_Main
begin

section \<open>Python values used by the shop backend\<close>

subsection \<open>Floats\<close>

text \<open>
  A Python \<^verbatim>\<open>float\<close> is an IEEE 754 binary64 number. A finite float \<open>Fin m e\<close> denotes the
  number \<open>m * 2 ^ e\<close> (significand and exponent, both integers); the two infinities and
  the not-a-number value are separate constructors. The sign of zero is not modelled: no
  comparison and no arithmetic result of the handlers depends on it. Every operation rounds its exact result to the nearest
  representable number, ties to the even significand (\<open>rnd\<close>).
\<close>

datatype pyfloat = Fin int int | PInf | NInf | NaN

text \<open>\<^verbatim>\<open>int.bit_length\<close>: the number of binary digits of a natural number.\<close>

fun bit_length :: "nat \<Rightarrow> nat" where
  "bit_length n = (if n = 0 then 0 else Suc (bit_length (n div 2)))"

declare bit_length.simps [simp del]

text \<open>The quotient \<open>a / b\<close> of two integers, \<open>0 < b\<close>, rounded to the nearest integer, a
  tie going to the even neighbour.\<close>

definition round_half_even :: "int \<Rightarrow> int \<Rightarrow> int" where
  "round_half_even a b =
     (let q = a div b; r = a mod b
      in if 2 * r < b then q
         else if b < 2 * r then q + 1
         else if even q then q else q + 1)"

text \<open>The quotient \<open>a / (b * 2 ^ e)\<close> for an exponent of either sign, rounded likewise.\<close>

definition round_scaled :: "int \<Rightarrow> int \<Rightarrow> int \<Rightarrow> int" where
  "round_scaled a b e =
     (if 0 \<le> e then round_half_even a (b * 2 ^ nat e)
      else round_half_even (a * 2 ^ nat (- e)) b)"

text \<open>The exponent \<open>E\<close> with \<open>2 ^ E \<le> a / b < 2 ^ (E + 1)\<close>, for positive \<open>a\<close> and \<open>b\<close>.\<close>

definition binade :: "int \<Rightarrow> int \<Rightarrow> int" where
  "binade a b =
     (let k = int (bit_length (nat a)) - int (bit_length (nat b))
      in if (if 0 \<le> k then b * 2 ^ nat k \<le> a else b \<le> a * 2 ^ nat (- k)) then k else k - 1)"

text \<open>
  \<open>rnd p q\<close> is the float nearest to the fraction \<open>p / q\<close> (\<open>0 < q\<close>), ties to the even
  significand: 53 significant bits, the smallest unit \<open>2 ^ -1074\<close> (subnormal numbers),
  overflow to an infinity from \<open>2 ^ 1024\<close> on. The result is in the unique form of the
  binary64 encoding: a significand in \<open>[2 ^ 52, 2 ^ 53)\<close>, or a smaller one with the
  exponent \<open>-1074\<close>; zero is \<open>Fin 0 0\<close>.
\<close>

definition rnd :: "int \<Rightarrow> int \<Rightarrow> pyfloat" where
  "rnd p q =
     (if p = 0 then Fin 0 0
      else (let a = \<bar>p\<bar>;
                e = max (binade a q - 52) (- 1074);
                m = round_scaled a q e;
                (m', e') = (if m = 2 ^ 53 then (2 ^ 52, e + 1) else (m, e))
            in if 971 < e' then (if 0 < p then PInf else NInf)
               else Fin (if 0 < p then m' else - m') e'))"

text \<open>Two finite floats over a common exponent: the two significands and the exponent.\<close>

definition align :: "int \<Rightarrow> int \<Rightarrow> int \<Rightarrow> int \<Rightarrow> int \<times> int \<times> int" where
  "align m1 e1 m2 e2 =
     (let e = min e1 e2 in (m1 * 2 ^ nat (e1 - e), m2 * 2 ^ nat (e2 - e), e))"

text \<open>A dyadic number \<open>m * 2 ^ e\<close> rounded to a float.\<close>

definition rnd_dyadic :: "int \<Rightarrow> int \<Rightarrow> pyfloat" where
  "rnd_dyadic m e = (if 0 \<le> e then rnd (m * 2 ^ nat e) 1 else rnd m (2 ^ nat (- e)))"

text \<open>\<^verbatim>\<open>x + y\<close> on floats.\<close>

fun fadd :: "pyfloat \<Rightarrow> pyfloat \<Rightarrow> pyfloat" where
  "fadd NaN _ = NaN"
| "fadd _ NaN = NaN"
| "fadd PInf NInf = NaN"
| "fadd NInf PInf = NaN"
| "fadd PInf _ = PInf"
| "fadd _ PInf = PInf"
| "fadd NInf _ = NInf"
| "fadd _ NInf = NInf"
| "fadd (Fin m1 e1) (Fin m2 e2) =
     (case align m1 e1 m2 e2 of (a, b, e) \<Rightarrow> rnd_dyadic (a + b) e)"

text \<open>\<^verbatim>\<open>x * y\<close> on floats.\<close>

fun fmul :: "pyfloat \<Rightarrow> pyfloat \<Rightarrow> pyfloat" where
  "fmul NaN _ = NaN"
| "fmul _ NaN = NaN"
| "fmul (Fin m1 e1) (Fin m2 e2) = rnd_dyadic (m1 * m2) (e1 + e2)"
| "fmul PInf (Fin b _) = (if b = 0 then NaN else if 0 < b then PInf else NInf)"
| "fmul NInf (Fin b _) = (if b = 0 then NaN else if 0 < b then NInf else PInf)"
| "fmul (Fin a _) PInf = (if a = 0 then NaN else if 0 < a then PInf else NInf)"
| "fmul (Fin a _) NInf = (if a = 0 then NaN else if 0 < a then NInf else PInf)"
| "fmul PInf PInf = PInf"
| "fmul NInf NInf = PInf"
| "fmul PInf NInf = NInf"
| "fmul NInf PInf = NInf"

text \<open>\<^verbatim>\<open>x >= y\<close>, \<^verbatim>\<open>x < y\<close> and \<^verbatim>\<open>x == y\<close> on floats; every comparison with
  not-a-number is false.\<close>

fun fge :: "pyfloat \<Rightarrow> pyfloat \<Rightarrow> bool" where
  "fge NaN _ = False"
| "fge _ NaN = False"
| "fge PInf _ = True"
| "fge _ NInf = True"
| "fge NInf _ = False"
| "fge _ PInf = False"
| "fge (Fin m1 e1) (Fin m2 e2) = (case align m1 e1 m2 e2 of (a, b, _) \<Rightarrow> b \<le> a)"

fun flt :: "pyfloat \<Rightarrow> pyfloat \<Rightarrow> bool" where
  "flt NaN _ = False"
| "flt _ NaN = False"
| "flt PInf _ = False"
| "flt _ NInf = False"
| "flt NInf _ = True"
| "flt _ PInf = True"
| "flt (Fin m1 e1) (Fin m2 e2) = (case align m1 e1 m2 e2 of (a, b, _) \<Rightarrow> a < b)"


text \<open>
  \<^verbatim>\<open>round(x, 2)\<close>: a float that is not finite is returned as it is; a finite one is
  rounded, as the exact number it denotes, to a whole number of hundredths (ties to
  even), and that decimal number is converted to the nearest float.
\<close>

fun py_round2 :: "pyfloat \<Rightarrow> pyfloat" where
  "py_round2 (Fin m e) = rnd (round_scaled (100 * m) 1 (- e)) 100"
| "py_round2 x = x"

text \<open>The literal \<^verbatim>\<open>0.05\<close> of the tax computation: the float nearest to \<open>5 / 100\<close>.\<close>

definition tax_rate :: pyfloat where
  "tax_rate = rnd 5 100"

text \<open>The number zero, as the float \<^verbatim>\<open>0.0\<close> and as the integer \<^verbatim>\<open>0\<close> converted to it.\<close>

definition fzero :: pyfloat where
  "fzero = Fin 0 0"

subsection \<open>Exceptions\<close>

text \<open>
  The exceptions the handlers can raise: the \<^verbatim>\<open>HTTPException\<close> of the handlers with its
  status code and detail, the \<^verbatim>\<open>ValidationError\<close> of a model constructor with the fields
  out of bounds and the bound of each, and the \<^verbatim>\<open>OverflowError\<close> of float arithmetic.
\<close>

datatype constraint = Greater_than_equal int

datatype error =
    HTTPException nat string
  | ValidationError "(string \<times> constraint) list"
  | OverflowError

text \<open>
  The conversion of an integer in \<^verbatim>\<open>float * int\<close>: the nearest float, and
  \<^verbatim>\<open>OverflowError\<close> (int too large to convert to float) where that is out of range.
\<close>

definition float_of_int :: "int \<Rightarrow> error + pyfloat" where
  "float_of_int n = (case rnd n 1 of Fin m e \<Rightarrow> Inr (Fin m e) | _ \<Rightarrow> Inl OverflowError)"

section \<open>The schemas (schemas.py)\<close>

text \<open>
  Each model class is a record of its fields. Field names are global in a theory, so the
  fields \<^verbatim>\<open>title\<close> and \<^verbatim>\<open>price\<close> of \<^verbatim>\<open>OrderItem\<close> are \<open>item_title\<close> and \<open>item_price\<close>
  here, and the fields of \<^verbatim>\<open>CheckoutRequest\<close> carry the prefix \<open>req_\<close>. The constructor of
  a class checks the bounds its fields declare (\<^verbatim>\<open>ge=...\<close>) and raises one
  \<^verbatim>\<open>ValidationError\<close> that lists every field out of bounds, in field order.
\<close>

record Product =
  title :: string
  description :: "string option"
  price :: pyfloat
  category :: string
  image_url :: "string option"
  in_stock :: bool

record OrderItem =
  product_id :: string
  item_title :: string
  quantity :: int
  item_price :: pyfloat

record Order =
  customer_name :: string
  customer_email :: string
  customer_phone :: "string option"
  shipping_address :: string
  items :: "OrderItem list"
  subtotal :: pyfloat
  tax :: pyfloat
  total :: pyfloat

text \<open>The check of \<^verbatim>\<open>Field(..., ge=0)\<close> on a float field: \<^verbatim>\<open>value >= 0\<close>.\<close>

definition check_ge_float :: "string \<Rightarrow> int \<Rightarrow> pyfloat \<Rightarrow> (string \<times> constraint) list" where
  "check_ge_float field bound v =
     (if fge v (rnd bound 1) then [] else [(field, Greater_than_equal bound)])"

definition check_ge_int :: "string \<Rightarrow> int \<Rightarrow> int \<Rightarrow> (string \<times> constraint) list" where
  "check_ge_int field bound v =
     (if bound \<le> v then [] else [(field, Greater_than_equal bound)])"

definition validated :: "(string \<times> constraint) list \<Rightarrow> 'a \<Rightarrow> error + 'a" where
  "validated errs v = (if errs = [] then Inr v else Inl (ValidationError errs))"

definition Product_new :: "Product \<Rightarrow> error + Product" where
  "Product_new p = validated (check_ge_float ''price'' 0 (price p)) p"

definition OrderItem_new :: "OrderItem \<Rightarrow> error + OrderItem" where
  "OrderItem_new i =
     validated (check_ge_int ''quantity'' 1 (quantity i) @ check_ge_float ''price'' 0 (item_price i)) i"

definition Order_new :: "Order \<Rightarrow> error + Order" where
  "Order_new ord =
     validated (check_ge_float ''subtotal'' 0 (subtotal ord)
                @ check_ge_float ''tax'' 0 (tax ord)
                @ check_ge_float ''total'' 0 (total ord)) ord"

section \<open>The persistence gateway\<close>

text \<open>
  Modelled from the spec: the module \<^verbatim>\<open>database\<close> (the handle \<^verbatim>\<open>db\<close>,
  \<^verbatim>\<open>create_document\<close>, \<^verbatim>\<open>get_documents\<close>) is not part of the sources. The spec gives its
  contract: \<open>createDocument(collectionName, entity) -> generated id\<close> and
  \<open>getDocuments(collectionName, filter) -> sequence of raw records\<close>, the handle being a
  null sentinel when the gateway is unavailable. A collection is the list of its documents
  in insertion order, each with its generated identifier; identifiers are drawn from a
  counter.
\<close>

record database =
  product_collection :: "(nat \<times> Product) list"
  order_collection :: "(nat \<times> Order) list"
  next_id :: nat

definition create_product_document :: "Product \<Rightarrow> database \<Rightarrow> nat \<times> database" where
  "create_product_document p d =
     (next_id d, d\<lparr>product_collection := product_collection d @ [(next_id d, p)],
                    next_id := Suc (next_id d)\<rparr>)"

definition create_order_document :: "Order \<Rightarrow> database \<Rightarrow> nat \<times> database" where
  "create_order_document ord d =
     (next_id d, d\<lparr>order_collection := order_collection d @ [(next_id d, ord)],
                    next_id := Suc (next_id d)\<rparr>)"

text \<open>\<^verbatim>\<open>db["product"].count_documents({})\<close>.\<close>

definition count_documents :: "'a list \<Rightarrow> nat" where
  "count_documents coll = length coll"

text \<open>
  \<^verbatim>\<open>get_documents("product", filter_q)\<close>: the filter is \<^verbatim>\<open>{}\<close> (\<open>None\<close>) or
  \<^verbatim>\<open>{"category": c}\<close> (\<open>Some c\<close>), which selects the documents whose category field is
  equal to \<open>c\<close>.
\<close>

definition get_documents :: "database \<Rightarrow> string option \<Rightarrow> (nat \<times> Product) list" where
  "get_documents d filter_q =
     (case filter_q of
        None \<Rightarrow> product_collection d
      | Some c \<Rightarrow> filter (\<lambda>doc. category (snd doc) = c) (product_collection d))"

section \<open>The handlers (main.py)\<close>

text \<open>
  A handler takes the database handle \<^verbatim>\<open>db\<close> (\<open>None\<close> when the gateway is unavailable) and
  returns what it returns or raises, together with the handle after the call. The
  dictionaries the handlers return: \<^verbatim>\<open>{"status", "message"}\<close> and \<^verbatim>\<open>{"status", "inserted"}\<close>
  of the seed, \<^verbatim>\<open>{"status", "order_id", "total"}\<close> of the checkout.
\<close>

datatype response =
    Seed_message string string
  | Seed_inserted string nat
  | Checkout_response string nat pyfloat

definition not_configured :: error where
  "not_configured = HTTPException 500 ''Database not configured''"

subsection \<open>seed_products\<close>

text \<open>An entry of the catalog: title, description, price (a whole number of currency
  units in every entry), category and image; every entry is in stock.\<close>

definition mk_product :: "string \<Rightarrow> string \<Rightarrow> int \<Rightarrow> string \<Rightarrow> string \<Rightarrow> Product" where
  "mk_product t d p c i =
     \<lparr>title = t, description = Some d, price = rnd p 1, category = c,
      image_url = Some i, in_stock = True\<rparr>"

definition products :: "Product list" where
  "products =
     [mk_product ''Premium Almonds'' ''Handpicked Californian almonds.'' 699 ''dryfruits'' ''/images/almonds.jpg'',
      mk_product ''Whole Cashews'' ''Crisp and buttery cashews.'' 749 ''dryfruits'' ''/images/cashews.jpg'',
      mk_product ''Pistachios'' ''Roasted and lightly salted.'' 899 ''dryfruits'' ''/images/pistachios.jpg'',
      mk_product ''Walnuts'' ''Omega-3 rich walnut kernels.'' 799 ''dryfruits'' ''/images/walnuts.jpg'',
      mk_product ''Raisins'' ''Golden seedless raisins.'' 299 ''dryfruits'' ''/images/raisins.jpg'',
      mk_product ''Cardamom (Elaichi)'' ''Aromatic whole green cardamom.'' 459 ''spices'' ''/images/cardamom.jpg'',
      mk_product ''Black Pepper'' ''Bold Malabar black pepper.'' 349 ''spices'' ''/images/blackpepper.jpg'',
      mk_product ''Turmeric Powder'' ''Pure Lakadong turmeric.'' 199 ''spices'' ''/images/turmeric.jpg'',
      mk_product ''Red Chilli Powder'' ''Vibrant Byadgi chilli powder.'' 229 ''spices'' ''/images/redchilli.jpg'',
      mk_product ''Spice Gift Box'' ''Curated spice box for gifting.'' 1299 ''gifting'' ''/images/spicebox.jpg'',
      mk_product ''Dry Fruits Combo'' ''Assorted premium dry fruits.'' 1499 ''combos'' ''/images/combobox.jpg'']"

text \<open>The loop \<^verbatim>\<open>for p in products: create_document("product", Product(**p))\<close>; a
  constructor that raises leaves the documents inserted before it in the collection.\<close>

fun seed_loop :: "Product list \<Rightarrow> database \<Rightarrow> error option \<times> database" where
  "seed_loop [] d = (None, d)"
| "seed_loop (p # ps) d =
     (case Product_new p of
        Inl e \<Rightarrow> (Some e, d)
      | Inr v \<Rightarrow> seed_loop ps (snd (create_product_document v d)))"

definition seed_products :: "database option \<Rightarrow> (error + response) \<times> database option" where
  "seed_products db =
     (case db of
        None \<Rightarrow> (Inl not_configured, None)
      | Some d \<Rightarrow>
          if 0 < count_documents (product_collection d)
          then (Inr (Seed_message ''ok'' ''Products already seeded''), Some d)
          else (case seed_loop products d of
                  (Some e, d') \<Rightarrow> (Inl e, Some d')
                | (None, d') \<Rightarrow> (Inr (Seed_inserted ''ok'' (length products)), Some d')))"

subsection \<open>list_products\<close>

text \<open>The loop over the documents: the identifier is dropped and the rest goes through the
  constructor of \<^verbatim>\<open>Product\<close>.\<close>

fun list_loop :: "Product list \<Rightarrow> (nat \<times> Product) list \<Rightarrow> error + Product list" where
  "list_loop result [] = Inr result"
| "list_loop result (d # docs) =
     (case Product_new (snd d) of
        Inl e \<Rightarrow> Inl e
      | Inr v \<Rightarrow> list_loop (result @ [v]) docs)"

text \<open>\<^verbatim>\<open>{"category": category} if category else {}\<close>: a string is true when it is not empty.\<close>

definition filter_q_of :: "string option \<Rightarrow> string option" where
  "filter_q_of cat = (case cat of None \<Rightarrow> None | Some c \<Rightarrow> if c \<noteq> [] then Some c else None)"

definition list_products ::
  "database option \<Rightarrow> string option \<Rightarrow> (error + Product list) \<times> database option" where
  "list_products db cat =
     (case db of
        None \<Rightarrow> (Inl not_configured, None)
      | Some d \<Rightarrow> (list_loop [] (get_documents d (filter_q_of cat)), Some d))"

subsection \<open>checkout\<close>

record CheckoutRequest =
  req_customer_name :: string
  req_customer_email :: string
  req_shipping_address :: string
  req_items :: "OrderItem list"

text \<open>
  \<^verbatim>\<open>sum(item.price * item.quantity for item in payload.items)\<close>: the items are taken from
  left to right, each product is added to the running sum, which starts at \<^verbatim>\<open>0\<close>. The
  quantity, an integer, is converted to a float for the product; the conversion raises
  when the integer is out of the range of floats. This is the sum of CPython up to 3.11;
  from 3.12 on the builtin compensates the rounding errors of the additions, which can
  change the last bit of a sum of three or more products.
\<close>

fun sum_loop :: "pyfloat \<Rightarrow> OrderItem list \<Rightarrow> error + pyfloat" where
  "sum_loop acc [] = Inr acc"
| "sum_loop acc (item # rest) =
     (case float_of_int (quantity item) of
        Inl e \<Rightarrow> Inl e
      | Inr q \<Rightarrow> sum_loop (fadd acc (fmul (item_price item) q)) rest)"

text \<open>The three lines that compute \<^verbatim>\<open>subtotal\<close>, \<^verbatim>\<open>tax\<close> and \<^verbatim>\<open>total\<close>.\<close>

definition totals :: "OrderItem list \<Rightarrow> error + pyfloat \<times> pyfloat \<times> pyfloat" where
  "totals its =
     (case sum_loop fzero its of
        Inl e \<Rightarrow> Inl e
      | Inr sub \<Rightarrow>
          (let tx = py_round2 (fmul sub tax_rate);
               tot = py_round2 (fadd sub tx)
           in Inr (sub, tx, tot)))"

definition checkout ::
  "database option \<Rightarrow> CheckoutRequest \<Rightarrow> (error + response) \<times> database option" where
  "checkout db payload =
     (case db of
        None \<Rightarrow> (Inl not_configured, None)
      | Some d \<Rightarrow>
          (case totals (req_items payload) of
             Inl e \<Rightarrow> (Inl e, Some d)
           | Inr (sub, tx, tot) \<Rightarrow>
               (case Order_new
                     \<lparr>customer_name = req_customer_name payload,
                      customer_email = req_customer_email payload,
                      customer_phone = None,
                      shipping_address = req_shipping_address payload,
                      items = req_items payload,
                      subtotal = sub, tax = tx, total = tot\<rparr> of
                  Inl e \<Rightarrow> (Inl e, Some d)
                | Inr ord \<Rightarrow>
                    (case create_order_document ord d of
                       (order_id, d') \<Rightarrow>
                         (Inr (Checkout_response ''success'' order_id tot), Some d')))))"

section \<open>Predicates used in the statements\<close>

text \<open>A stored product document that the constructor of \<^verbatim>\<open>Product\<close> accepts.\<close>

definition valid_product :: "Product \<Rightarrow> bool" where
  "valid_product p = fge (price p) fzero"

text \<open>Databases used as concrete inputs.\<close>

definition empty_database :: database where
  "empty_database = \<lparr>product_collection = [], order_collection = [], next_id = 0\<rparr>"

definition example_catalog :: database where
  "example_catalog =
     \<lparr>product_collection =
        [(0, mk_product ''Raisins'' ''Golden seedless raisins.'' 299 ''dryfruits'' ''/images/raisins.jpg''),
         (1, mk_product ''Black Pepper'' ''Bold Malabar black pepper.'' 349 ''spices'' ''/images/blackpepper.jpg''),
         (2, mk_product ''Pepper, large'' ''Bold Malabar black pepper.'' 649 ''Spices'' ''/images/blackpepper.jpg'')],
      order_collection = [], next_id = 3\<rparr>"

text \<open>An integer that \<^verbatim>\<open>float * int\<close> can convert, and an order item that the constructor
  of \<^verbatim>\<open>OrderItem\<close> accepts.\<close>

definition float_ok :: "int \<Rightarrow> bool" where
  "float_ok n = (case rnd n 1 of Fin m e \<Rightarrow> True | _ \<Rightarrow> False)"

definition valid_item :: "OrderItem \<Rightarrow> bool" where
  "valid_item i = (1 \<le> quantity i \<and> fge (item_price i) fzero)"

text \<open>
  The checkout calculator in the words of the specification: the subtotal is the sum over
  the items of price times quantity, the tax is \<open>round(subtotal * 0.05, 2)\<close>, the total is
  \<open>round(subtotal + tax, 2)\<close>; the arithmetic is that of floats.
\<close>

definition spec_subtotal :: "OrderItem list \<Rightarrow> pyfloat" where
  "spec_subtotal its = foldl fadd fzero (map (\<lambda>i. fmul (item_price i) (rnd (quantity i) 1)) its)"

definition spec_tax :: "pyfloat \<Rightarrow> pyfloat" where
  "spec_tax sub = py_round2 (fmul sub tax_rate)"

definition spec_total :: "pyfloat \<Rightarrow> pyfloat \<Rightarrow> pyfloat" where
  "spec_total sub tx = py_round2 (fadd sub tx)"



text \<open>Requests used as concrete inputs: the example of the specification (two packs of
  almonds at 699.0, one of raisins at 299.0), one item at 0.125, one item with the quantity
  \<open>2 ^ 1024\<close>.\<close>

definition mk_request :: "OrderItem list \<Rightarrow> CheckoutRequest" where
  "mk_request its =
     \<lparr>req_customer_name = ''Asha'', req_customer_email = ''asha@example.com'',
      req_shipping_address = ''12 Market Road'', req_items = its\<rparr>"

definition example_items :: "OrderItem list" where
  "example_items =
     [\<lparr>product_id = ''p1'', item_title = ''Premium Almonds'', quantity = 2, item_price = rnd 699 1\<rparr>,
      \<lparr>product_id = ''p5'', item_title = ''Raisins'', quantity = 1, item_price = rnd 299 1\<rparr>]"


definition huge_items :: "OrderItem list" where
  "huge_items =
     [\<lparr>product_id = ''p5'', item_title = ''Raisins'', quantity = 2 ^ 1024, item_price = rnd 299 1\<rparr>]"

section \<open>Evaluation of the float operations\<close>

lemma bit_length_0: "bit_length 0 = 0"
  by (simp add: bit_length.simps)

lemma bit_length_1: "bit_length (Suc 0) = Suc 0"
  by (simp add: bit_length.simps)

lemma bit_length_numeral: "bit_length (numeral k) = Suc (bit_length (numeral k div 2))"
  by (subst bit_length.simps) simp

lemmas float_eval =
  rnd_def binade_def round_scaled_def round_half_even_def rnd_dyadic_def align_def Let_def
  bit_length_0 bit_length_1 bit_length_numeral tax_rate_def fzero_def

lemma rnd_0: "rnd 0 q = fzero"
  by (simp add: rnd_def fzero_def)

lemma flt_not_fge: "flt x y \<Longrightarrow> \<not> fge x y"
  by (cases x; cases y) (auto simp: align_def Let_def)

section \<open>Validation\<close>

lemma Product_new_valid: "valid_product p \<Longrightarrow> Product_new p = Inr p"
  by (simp add: Product_new_def validated_def check_ge_float_def valid_product_def rnd_0)

text \<open>
  Claim C8. Constructing a \<^verbatim>\<open>Product\<close> whose price is below the minimum \<open>0\<close> of the field
  (a negative number or minus infinity; \<open>-1\<close> in the instance below) produces no entity: it
  fails with a validation error that names the field \<^verbatim>\<open>price\<close> and its bound \<^verbatim>\<open>ge=0\<close>.
\<close>

theorem product_price_below_minimum:
  assumes "flt (price p) fzero"
  shows "Product_new p = Inl (ValidationError [(''price'', Greater_than_equal 0)])"
  using flt_not_fge [OF assms]
  by (simp add: Product_new_def validated_def check_ge_float_def rnd_0)

theorem product_price_below_minimum_witness:
  "flt (price (mk_product ''Almonds'' ''x'' (- 1) ''dryfruits'' ''/a.jpg'')) fzero
   \<and> Product_new (mk_product ''Almonds'' ''x'' (- 1) ''dryfruits'' ''/a.jpg'')
       = Inl (ValidationError [(''price'', Greater_than_equal 0)])"
proof -
  have h: "flt (price (mk_product ''Almonds'' ''x'' (- 1) ''dryfruits'' ''/a.jpg'')) fzero"
    by (simp add: mk_product_def float_eval)
  from h product_price_below_minimum [OF h] show ?thesis by simp
qed

section \<open>The gateway is unavailable\<close>

text \<open>
  Claim C7. When the database handle is the null sentinel, each of the seed, the
  product-listing and the checkout operation fails with the configuration error (status
  500, "Database not configured"); nothing is read or written, and the handle is as it
  was.
\<close>

theorem gateway_unavailable:
  "seed_products None = (Inl (HTTPException 500 ''Database not configured''), None)
   \<and> list_products None cat = (Inl (HTTPException 500 ''Database not configured''), None)
   \<and> checkout None payload = (Inl (HTTPException 500 ''Database not configured''), None)"
  by (simp add: seed_products_def list_products_def checkout_def not_configured_def)

section \<open>Seeding\<close>

lemma seed_loop_valid:
  "list_all valid_product ps \<Longrightarrow>
   seed_loop ps d =
     (None, d\<lparr>product_collection := product_collection d @ zip [next_id d ..< next_id d + length ps] ps,
              next_id := next_id d + length ps\<rparr>)"
proof (induction ps arbitrary: d)
  case Nil
  then show ?case by simp
next
  case (Cons p ps)
  have upt: "[next_id d ..< next_id d + length (p # ps)] =
      next_id d # [Suc (next_id d) ..< Suc (next_id d) + length ps]"
    by (simp add: upt_rec del: upt_Suc)
  from Cons.prems have "valid_product p" and "list_all valid_product ps"
    by simp_all
  then show ?case
    unfolding upt by (simp add: Cons.IH Product_new_valid create_product_document_def del: upt_Suc)
qed

lemma products_valid: "list_all valid_product products"
  by (simp add: products_def mk_product_def valid_product_def float_eval)

lemma length_products: "length products = 11"
  by (simp add: products_def)

lemma products_in_stock: "list_all in_stock products"
  by (simp add: products_def mk_product_def)

lemma seed_products_nonempty:
  "product_collection d \<noteq> [] \<Longrightarrow>
   seed_products (Some d) = (Inr (Seed_message ''ok'' ''Products already seeded''), Some d)"
  by (simp add: seed_products_def count_documents_def)

lemma seed_products_empty:
  "product_collection d = [] \<Longrightarrow>
   seed_products (Some d) =
     (Inr (Seed_inserted ''ok'' 11),
      Some (d\<lparr>product_collection := zip [next_id d ..< next_id d + 11] products,
              next_id := next_id d + 11\<rparr>))"
  by (simp add: seed_products_def count_documents_def seed_loop_valid [OF products_valid]
      length_products del: upt_Suc)

text \<open>
  Claim C3. The seed operation is idempotent by count. On a product collection that is
  empty it inserts the eleven products of the fixed catalog, in their order, each with a
  fresh identifier, and reports the count 11; on a collection that holds a document it
  inserts nothing and reports that the products are already seeded. The catalog has eleven
  entries, all in stock. Of two consecutive calls that start from an empty collection, the
  second reports "already seeded" and leaves the database as the first call left it.
\<close>

theorem seed_idempotent_by_count:
  "seed_products (Some d) =
     (if product_collection d = []
      then (Inr (Seed_inserted ''ok'' 11),
            Some (d\<lparr>product_collection := zip [next_id d ..< next_id d + 11] products,
                    next_id := next_id d + 11\<rparr>))
      else (Inr (Seed_message ''ok'' ''Products already seeded''), Some d))
   \<and> length products = 11
   \<and> list_all in_stock products
   \<and> seed_products (snd (seed_products (Some (d\<lparr>product_collection := []\<rparr>)))) =
       (Inr (Seed_message ''ok'' ''Products already seeded''),
        snd (seed_products (Some (d\<lparr>product_collection := []\<rparr>))))"
proof -
  have two: "zip [next_id d ..< next_id d + 11] products \<noteq> []"
    by (simp add: products_def upt_rec del: upt_Suc)
  show ?thesis
    using two
    by (simp add: seed_products_nonempty seed_products_empty length_products products_in_stock
        del: upt_Suc)
qed

section \<open>Listing products\<close>

lemma list_loop_valid:
  "list_all (\<lambda>d. valid_product (snd d)) docs \<Longrightarrow> list_loop acc docs = Inr (acc @ map snd docs)"
  by (induction docs arbitrary: acc) (simp_all add: Product_new_valid)

lemma example_catalog_valid:
  "list_all (\<lambda>doc. valid_product (snd doc)) (product_collection example_catalog)"
  by (simp add: example_catalog_def mk_product_def valid_product_def float_eval)

text \<open>
  Claim C9. With the empty string as category argument the handler applies no filter:
  for a collection of stored products (documents that the constructor of \<^verbatim>\<open>Product\<close>
  accepts) it returns every product, in stored order, and not the products whose category
  is the empty string. The presence test is the truth value of the string, so the call
  is, for every handle, the call without a category, and its query selects every document
  of the collection.
\<close>

theorem list_products_empty_category:
  assumes "list_all (\<lambda>doc. valid_product (snd doc)) (product_collection d)"
  shows "list_products (Some d) (Some '''') = (Inr (map snd (product_collection d)), Some d)
         \<and> list_products db (Some '''') = list_products db None
         \<and> get_documents d (filter_q_of (Some '''')) = product_collection d"
proof -
  have q: "get_documents d (filter_q_of (Some '''')) = product_collection d"
    by (simp add: filter_q_of_def get_documents_def)
  have "list_products (Some d) (Some '''') = (list_loop [] (product_collection d), Some d)"
    by (simp add: list_products_def q)
  also have "list_loop [] (product_collection d) = Inr ([] @ map snd (product_collection d))"
    using assms by (rule list_loop_valid)
  finally have all: "list_products (Some d) (Some '''') =
      (Inr (map snd (product_collection d)), Some d)"
    by simp
  have "list_products db (Some '''') = list_products db None"
    by (simp add: list_products_def filter_q_of_def split: option.split)
  with all q show ?thesis by simp
qed

theorem list_products_empty_category_witness:
  "list_all (\<lambda>doc. valid_product (snd doc)) (product_collection example_catalog)
   \<and> list_products (Some example_catalog) (Some '''') =
       (Inr [mk_product ''Raisins'' ''Golden seedless raisins.'' 299 ''dryfruits''
               ''/images/raisins.jpg'',
             mk_product ''Black Pepper'' ''Bold Malabar black pepper.'' 349 ''spices''
               ''/images/blackpepper.jpg'',
             mk_product ''Pepper, large'' ''Bold Malabar black pepper.'' 649 ''Spices''
               ''/images/blackpepper.jpg''],
        Some example_catalog)
   \<and> list_products (Some example_catalog) (Some '''') = list_products (Some example_catalog) None
   \<and> get_documents example_catalog (filter_q_of (Some '''')) = product_collection example_catalog
   \<and> filter (\<lambda>p. category p = '''') (map snd (product_collection example_catalog)) = []"
proof -
  have m: "map snd (product_collection example_catalog) =
      [mk_product ''Raisins'' ''Golden seedless raisins.'' 299 ''dryfruits''
         ''/images/raisins.jpg'',
       mk_product ''Black Pepper'' ''Bold Malabar black pepper.'' 349 ''spices''
         ''/images/blackpepper.jpg'',
       mk_product ''Pepper, large'' ''Bold Malabar black pepper.'' 649 ''Spices''
         ''/images/blackpepper.jpg'']"
    by (simp add: example_catalog_def)
  have f: "filter (\<lambda>p. category p = '''') (map snd (product_collection example_catalog)) = []"
    by (simp add: example_catalog_def mk_product_def)
  note t = list_products_empty_category [OF example_catalog_valid, of "Some example_catalog"]
  from t have a: "list_products (Some example_catalog) (Some '''') =
      (Inr (map snd (product_collection example_catalog)), Some example_catalog)"
    by (rule conjunct1)
  from t have b: "list_products (Some example_catalog) (Some '''') =
      list_products (Some example_catalog) None"
    by (rule conjunct2 [THEN conjunct1])
  from t have c: "get_documents example_catalog (filter_q_of (Some '''')) =
      product_collection example_catalog"
    by (rule conjunct2 [THEN conjunct2])
  show ?thesis
    by (intro conjI) (rule example_catalog_valid a [unfolded m] b c f)+
qed

text \<open>
  Claim C4, as stated, fails for the empty string: it is a category argument, yet the
  result is every product and not the products whose category is the empty string (there
  are none in the example catalog).
\<close>

theorem list_products_filter_counterexample:
  "fst (list_products (Some example_catalog) (Some '''')) =
     Inr (map snd (product_collection example_catalog))
   \<and> filter (\<lambda>p. category p = '''') (map snd (product_collection example_catalog)) = []
   \<and> map snd (product_collection example_catalog) \<noteq> []"
  using example_catalog_valid
  by (simp add: list_products_def filter_q_of_def get_documents_def list_loop_valid)
     (simp add: example_catalog_def mk_product_def)

text \<open>
  Claim C4, amended. For a collection of stored products (documents that the constructor
  of \<^verbatim>\<open>Product\<close> accepts), the listing with a category argument that is not the empty
  string returns exactly the products whose category is equal to the argument, character
  by character, in stored order; the listing without a category argument returns all
  products. The database is not changed.
\<close>

theorem list_products_filter:
  assumes "list_all (\<lambda>doc. valid_product (snd doc)) (product_collection d)"
    and "c \<noteq> ''''"
  shows "list_products (Some d) (Some c) =
           (Inr (filter (\<lambda>p. category p = c) (map snd (product_collection d))), Some d)
         \<and> list_products (Some d) None = (Inr (map snd (product_collection d)), Some d)"
proof -
  have "list_all (\<lambda>doc. valid_product (snd doc))
          (filter (\<lambda>doc. category (snd doc) = c) (product_collection d))"
    using assms(1) by (simp add: list_all_iff)
  then have "list_products (Some d) (Some c) =
           (Inr (filter (\<lambda>p. category p = c) (map snd (product_collection d))), Some d)"
    using assms(2)
    by (simp add: list_products_def filter_q_of_def get_documents_def list_loop_valid filter_map comp_def)
  moreover have "list_products (Some d) None = (Inr (map snd (product_collection d)), Some d)"
    using assms(1)
    by (simp add: list_products_def filter_q_of_def get_documents_def list_loop_valid)
  ultimately show ?thesis by simp
qed

theorem list_products_filter_witness:
  "list_all (\<lambda>doc. valid_product (snd doc)) (product_collection example_catalog)
   \<and> ''spices'' \<noteq> ''''
   \<and> list_products (Some example_catalog) (Some ''spices'') =
       (Inr [mk_product ''Black Pepper'' ''Bold Malabar black pepper.'' 349 ''spices''
               ''/images/blackpepper.jpg''],
        Some example_catalog)
   \<and> list_products (Some example_catalog) None =
       (Inr (map snd (product_collection example_catalog)), Some example_catalog)"
proof -
  have c: "''spices'' \<noteq> ''''" by simp
  have f: "filter (\<lambda>p. category p = ''spices'') (map snd (product_collection example_catalog)) =
      [mk_product ''Black Pepper'' ''Bold Malabar black pepper.'' 349 ''spices''
         ''/images/blackpepper.jpg'']"
    by (simp add: example_catalog_def mk_product_def)
  from list_products_filter [OF example_catalog_valid c] f example_catalog_valid
  show ?thesis by simp
qed

section \<open>Non-negative amounts\<close>

lemma fge_fzero_iff:
  "fge x fzero \<longleftrightarrow> (case x of Fin m e \<Rightarrow> 0 \<le> m | PInf \<Rightarrow> True | _ \<Rightarrow> False)"
  by (cases x) (simp_all add: fzero_def align_def Let_def zero_le_mult_iff)

lemma round_half_even_nonneg: "0 \<le> a \<Longrightarrow> 0 < b \<Longrightarrow> 0 \<le> round_half_even a b"
  by (simp add: round_half_even_def Let_def pos_imp_zdiv_nonneg_iff)

lemma round_scaled_nonneg: "0 \<le> a \<Longrightarrow> 0 < b \<Longrightarrow> 0 \<le> round_scaled a b e"
  by (simp add: round_scaled_def round_half_even_nonneg)

lemma rnd_pos:
  assumes "0 < p"
  shows "rnd p q =
     (let e = max (binade p q - 52) (- 1074); m = round_scaled p q e
      in if m = 2 ^ 53 then (if 971 < e + 1 then PInf else Fin (2 ^ 52) (e + 1))
         else (if 971 < e then PInf else Fin m e))"
proof -
  from assms have "p \<noteq> 0" and "\<bar>p\<bar> = p"
    by simp_all
  then show ?thesis
    unfolding rnd_def Let_def by (simp only: if_False if_True assms split: prod.split) auto
qed

lemma rnd_nonneg:
  assumes "0 \<le> p" and "0 < q"
  shows "fge (rnd p q) fzero"
proof (cases "p = 0")
  case True
  then show ?thesis
    by (simp add: rnd_0 fge_fzero_iff) (simp add: fzero_def)
next
  case False
  with assms have pos: "0 < p"
    by simp
  have "0 \<le> round_scaled p q (max (binade p q - 52) (- 1074))"
    using assms by (simp add: round_scaled_nonneg)
  then show ?thesis
    by (simp add: rnd_pos [OF pos] Let_def fge_fzero_iff)
qed

lemma rnd_dyadic_nonneg: "0 \<le> m \<Longrightarrow> fge (rnd_dyadic m e) fzero"
  by (simp add: rnd_dyadic_def rnd_nonneg)

lemma fadd_nonneg: "fge x fzero \<Longrightarrow> fge y fzero \<Longrightarrow> fge (fadd x y) fzero"
proof (cases x; cases y)
  fix m1 e1 m2 e2
  assume "fge x fzero" "fge y fzero" and x: "x = Fin m1 e1" and y: "y = Fin m2 e2"
  then have "0 \<le> m1" "0 \<le> m2"
    by (simp_all add: fge_fzero_iff)
  then have "0 \<le> m1 * 2 ^ nat (e1 - min e1 e2) + m2 * 2 ^ nat (e2 - min e1 e2)"
    by simp
  then show ?thesis
    by (simp add: x y align_def Let_def rnd_dyadic_nonneg)
qed (simp_all add: fge_fzero_iff)

lemma py_round2_nonneg: "fge x fzero \<Longrightarrow> fge (py_round2 x) fzero"
proof (cases x)
  case (Fin m e)
  assume "fge x fzero"
  with Fin have "0 \<le> 100 * m"
    by (simp add: fge_fzero_iff)
  then have "0 \<le> round_scaled (100 * m) 1 (- e)"
    by (rule round_scaled_nonneg) simp
  then show ?thesis
    by (simp add: Fin rnd_nonneg)
qed simp_all


lemma bit_length_pos: "0 < n \<Longrightarrow> 0 < bit_length n"
  by (subst bit_length.simps) simp

lemma bit_length_lower: "0 < n \<Longrightarrow> 2 ^ (bit_length n - 1) \<le> n"
proof (induction n rule: bit_length.induct)
  case (1 n)
  show ?case
  proof (cases "n div 2 = 0")
    case True
    with "1.prems" have "bit_length n = Suc 0"
      by (subst bit_length.simps) (simp add: bit_length_0)
    with "1.prems" show ?thesis by simp
  next
    case False
    then have pos: "0 < n div 2" by simp
    with "1.IH" "1.prems" have ih: "2 ^ (bit_length (n div 2) - 1) \<le> n div 2"
      by simp
    from pos have "bit_length (n div 2) = Suc (bit_length (n div 2) - 1)"
      using bit_length_pos [OF pos] by simp
    then have "(2::nat) ^ bit_length (n div 2) = 2 * 2 ^ (bit_length (n div 2) - 1)"
      by (metis power_Suc)
    also have "\<dots> \<le> 2 * (n div 2)"
      using ih by simp
    also have "\<dots> \<le> n" by simp
    finally have "(2::nat) ^ bit_length (n div 2) \<le> n" .
    moreover from "1.prems" have "bit_length n - 1 = bit_length (n div 2)"
      by (subst bit_length.simps) simp
    ultimately show ?thesis by simp
  qed
qed

lemma binade_one_le: "binade p 1 \<le> int (bit_length (nat p)) - 1"
  by (simp add: binade_def Let_def bit_length_1)

lemma round_scaled_pos:
  assumes "0 < p"
  shows "0 < round_scaled p 1 (max (binade p 1 - 52) (- 1074))"
proof (cases "0 \<le> max (binade p 1 - 52) (- 1074)")
  case False
  then show ?thesis
    using assms by (simp add: round_scaled_def round_half_even_def)
next
  case True
  define e where "e = nat (max (binade p 1 - 52) (- 1074))"
  from assms have np: "0 < nat p" by simp
  have "int e = max (binade p 1 - 52) (- 1074)"
    using True by (simp add: e_def)
  moreover have "max (binade p 1 - 52) (- 1074) \<le> binade p 1"
    using True by linarith
  ultimately have "int e \<le> int (bit_length (nat p)) - 1"
    using binade_one_le [of p] by linarith
  then have "e \<le> bit_length (nat p) - 1"
    by linarith
  then have "(2::nat) ^ e \<le> 2 ^ (bit_length (nat p) - 1)"
    by (simp add: power_increasing)
  also have "\<dots> \<le> nat p"
    by (rule bit_length_lower [OF np])
  finally have "(2::nat) ^ e \<le> nat p" .
  then have "int (2 ^ e) \<le> int (nat p)"
    by (simp only: of_nat_le_iff)
  then have le: "(2::int) ^ e \<le> p"
    using assms by simp
  have "0 < p div 2 ^ e"
    using le pos_imp_zdiv_pos_iff [of "2 ^ e" p] by simp
  then have "0 < round_half_even p (2 ^ e)"
    by (simp add: round_half_even_def Let_def)
  moreover have m: "max (binade p 1 - 52) (- 1074) = binade p 1 - 52"
    using True by linarith
  moreover have "0 \<le> binade p 1 - 52"
    using True by linarith
  ultimately show ?thesis
    by (simp add: round_scaled_def e_def)
qed

lemma float_of_int_pos:
  assumes "1 \<le> n" and "float_of_int n = Inr x"
  shows "\<exists>m e. x = Fin m e \<and> 0 < m"
proof -
  from assms(1) have pos: "0 < n" by simp
  show ?thesis
    using assms(2) round_scaled_pos [OF pos]
    by (auto simp: float_of_int_def rnd_pos [OF pos] Let_def split: if_splits)
qed

lemma fmul_nonneg_pos:
  assumes "fge x fzero" and "0 < m"
  shows "fge (fmul x (Fin m e)) fzero"
proof (cases x)
  case (Fin m1 e1)
  with assms have "0 \<le> m1 * m"
    by (simp add: fge_fzero_iff)
  then show ?thesis
    by (simp add: Fin rnd_dyadic_nonneg)
next
  case PInf
  with assms(2) show ?thesis
    by (simp add: fge_fzero_iff)
qed (use assms(1) in \<open>simp_all add: fge_fzero_iff\<close>)

lemma tax_rate_value: "tax_rate = Fin 7205759403792794 (- 57)"
  by (simp add: float_eval)

lemma fzero_nonneg: "fge fzero fzero"
  by (simp add: fge_fzero_iff) (simp add: fzero_def)

lemma sum_loop_nonneg:
  "list_all valid_item its \<Longrightarrow> fge acc fzero \<Longrightarrow> sum_loop acc its = Inr sub \<Longrightarrow> fge sub fzero"
proof (induction its arbitrary: acc)
  case Nil
  then show ?case by simp
next
  case (Cons i its)
  from Cons.prems(3) obtain q where q: "float_of_int (quantity i) = Inr q"
    and rest: "sum_loop (fadd acc (fmul (item_price i) q)) its = Inr sub"
    by (auto split: sum.splits)
  from Cons.prems(1) have "1 \<le> quantity i" and price: "fge (item_price i) fzero"
    by (simp_all add: valid_item_def)
  with q obtain m e where "q = Fin m e" and "0 < m"
    using float_of_int_pos by blast
  with price have "fge (fmul (item_price i) q) fzero"
    by (simp add: fmul_nonneg_pos)
  with Cons.prems(2) have "fge (fadd acc (fmul (item_price i) q)) fzero"
    by (rule fadd_nonneg)
  moreover from Cons.prems(1) have "list_all valid_item its" by simp
  ultimately show ?case
    using rest Cons.IH by blast
qed

lemma totals_nonneg:
  assumes "list_all valid_item its" and "totals its = Inr (sub, tx, tot)"
  shows "fge sub fzero \<and> fge tx fzero \<and> fge tot fzero"
proof -
  from assms(2) have s: "sum_loop fzero its = Inr sub"
    and tx: "tx = py_round2 (fmul sub tax_rate)" and tot: "tot = py_round2 (fadd sub tx)"
    by (auto simp: totals_def Let_def split: sum.splits)
  have sub: "fge sub fzero"
    using assms(1) fzero_nonneg s by (rule sum_loop_nonneg)
  then have "fge (fmul sub tax_rate) fzero"
    by (simp add: tax_rate_value fmul_nonneg_pos)
  then have t: "fge tx fzero"
    unfolding tx by (rule py_round2_nonneg)
  with sub have "fge (fadd sub tx) fzero"
    by (rule fadd_nonneg)
  then have "fge tot fzero"
    unfolding tot by (rule py_round2_nonneg)
  with sub t show ?thesis by simp
qed

lemma Order_new_nonneg:
  "fge (subtotal ord) fzero \<Longrightarrow> fge (tax ord) fzero \<Longrightarrow> fge (total ord) fzero \<Longrightarrow>
   Order_new ord = Inr ord"
  by (simp add: Order_new_def validated_def check_ge_float_def rnd_0)

lemma sum_loop_error: "sum_loop acc its = Inl e \<Longrightarrow> e = OverflowError"
  by (induction its arbitrary: acc) (auto simp: float_of_int_def split: sum.splits pyfloat.splits)

section \<open>Integers too large for a float\<close>

lemma bit_length_double: "0 < n \<Longrightarrow> bit_length (2 * n) = Suc (bit_length n)"
  by (subst bit_length.simps) simp

lemma bit_length_pow2: "bit_length (2 ^ n) = Suc n"
  by (induction n) (simp_all add: bit_length_1 bit_length_double)

lemma binade_pow2: "binade (2 ^ n) 1 = int n"
proof -
  have "nat (2 ^ n :: int) = 2 ^ n"
    by (simp add: nat_power_eq)
  then have "bit_length (nat (2 ^ n :: int)) = Suc n"
    by (simp only: bit_length_pow2)
  then show ?thesis
    by (simp add: binade_def bit_length_1 Let_def)
qed

lemma rnd_overflow: "rnd (2 ^ 1024) 1 = PInf"
  using binade_pow2 [of 1024]
  by (simp add: rnd_def round_scaled_def round_half_even_def Let_def)

lemma float_of_int_overflow: "float_of_int (2 ^ 1024) = Inl OverflowError"
  using rnd_overflow by (simp add: float_of_int_def)

section \<open>Checkout\<close>

lemma sum_loop_spec:
  "list_all (\<lambda>i. float_ok (quantity i)) its \<Longrightarrow>
   sum_loop acc its = Inr (foldl fadd acc (map (\<lambda>i. fmul (item_price i) (rnd (quantity i) 1)) its))"
proof (induction its arbitrary: acc)
  case Nil
  then show ?case by simp
next
  case (Cons i its)
  from Cons.prems have "float_of_int (quantity i) = Inr (rnd (quantity i) 1)"
    by (simp add: float_ok_def float_of_int_def split: pyfloat.splits)
  with Cons show ?case by simp
qed

lemma totals_float_ok:
  assumes "list_all (\<lambda>i. float_ok (quantity i)) its"
  shows "totals its =
           Inr (spec_subtotal its,
                spec_tax (spec_subtotal its),
                spec_total (spec_subtotal its) (spec_tax (spec_subtotal its)))"
  by (simp add: totals_def sum_loop_spec [OF assms] spec_subtotal_def spec_tax_def
      spec_total_def Let_def)

lemma example_items_ok: "list_all (\<lambda>i. float_ok (quantity i)) example_items"
  by (simp add: example_items_def float_ok_def float_eval)

lemma example_subtotal: "spec_subtotal example_items = rnd 1697 1"
  by (simp add: spec_subtotal_def example_items_def float_eval)

lemma example_tax: "spec_tax (rnd 1697 1) = rnd 8485 100"
  by (simp add: spec_tax_def float_eval)

lemma example_total: "spec_total (rnd 1697 1) (rnd 8485 100) = rnd 178185 100"
  by (simp add: spec_total_def float_eval)

text \<open>
  Claim C1, as stated, fails for a list of order items with a quantity that no float can
  hold: \<^verbatim>\<open>item.price * item.quantity\<close> raises \<^verbatim>\<open>OverflowError\<close>, so that no subtotal, tax
  or total is computed. The item is one that the constructor of \<^verbatim>\<open>OrderItem\<close> accepts.
\<close>

theorem totals_counterexample:
  "list_all valid_item huge_items \<and> totals huge_items = Inl OverflowError"
  using float_of_int_overflow
  by (simp add: totals_def huge_items_def valid_item_def)
     (simp add: float_eval)

text \<open>
  Claim C1, amended. For every list of order items whose quantities are each convertible
  to a float, the checkout computation yields a subtotal equal to the sum over all items
  of price times quantity, a tax equal to \<open>round(subtotal * 0.05, 2)\<close> and a total equal to
  \<open>round(subtotal + tax, 2)\<close>. For the items 2 at 699.0 and 1 at 299.0 it yields 1697.0,
  84.85 and 1781.85 (the instance below).
\<close>

theorem totals_as_specified:
  assumes "list_all (\<lambda>i. float_ok (quantity i)) its"
  shows "totals its =
           Inr (spec_subtotal its,
                spec_tax (spec_subtotal its),
                spec_total (spec_subtotal its) (spec_tax (spec_subtotal its)))"
  using assms by (rule totals_float_ok)

theorem totals_as_specified_witness:
  "list_all (\<lambda>i. float_ok (quantity i)) example_items
   \<and> totals example_items = Inr (rnd 1697 1, rnd 8485 100, rnd 178185 100)"
  using totals_as_specified [OF example_items_ok] example_items_ok
  by (simp add: example_subtotal example_tax example_total)



lemma eighth_sum_value: "fadd (rnd 125 1000) (rnd 1 100) = rnd 135 1000"
  by (simp add: float_eval)



lemma checkout_success:
  assumes "totals (req_items payload) = Inr (sub, tx, tot)"
    and "fge sub fzero" and "fge tx fzero" and "fge tot fzero"
  shows "checkout (Some d) payload =
     (Inr (Checkout_response ''success'' (next_id d) tot),
      Some (d\<lparr>order_collection := order_collection d @
                [(next_id d,
                  \<lparr>customer_name = req_customer_name payload,
                   customer_email = req_customer_email payload,
                   customer_phone = None,
                   shipping_address = req_shipping_address payload,
                   items = req_items payload,
                   subtotal = sub, tax = tx, total = tot\<rparr>)],
              next_id := Suc (next_id d)\<rparr>))"
  using assms by (simp add: checkout_def Order_new_nonneg create_order_document_def)





lemma example_items_valid: "list_all valid_item example_items"
  by (simp add: example_items_def valid_item_def float_eval)

lemma example_totals: "totals example_items = Inr (rnd 1697 1, rnd 8485 100, rnd 178185 100)"
  using totals_float_ok [OF example_items_ok]
  by (simp add: example_subtotal example_tax example_total)




text \<open>
  Claim C5. A checkout request whose list of items is empty is accepted: the order is
  stored and the response is a success, with subtotal, tax and total all zero.
\<close>

theorem checkout_empty_items:
  "checkout (Some d) (payload\<lparr>req_items := []\<rparr>) =
     (Inr (Checkout_response ''success'' (next_id d) fzero),
      Some (d\<lparr>order_collection := order_collection d @
                [(next_id d,
                  \<lparr>customer_name = req_customer_name payload,
                   customer_email = req_customer_email payload,
                   customer_phone = None,
                   shipping_address = req_shipping_address payload,
                   items = [],
                   subtotal = fzero, tax = fzero, total = fzero\<rparr>)],
              next_id := Suc (next_id d)\<rparr>))
   \<and> totals [] = Inr (fzero, fzero, fzero)"
proof -
  have t: "totals [] = Inr (fzero, fzero, fzero)"
    by (simp add: totals_def float_eval)
  then have "totals (req_items (payload\<lparr>req_items := []\<rparr>)) = Inr (fzero, fzero, fzero)"
    by simp
  from checkout_success [OF this fzero_nonneg fzero_nonneg fzero_nonneg, of d] t
  show ?thesis by simp
qed

text \<open>
  Claim C6, as stated, fails for a valid payload with a quantity that no float can hold:
  the computation of the subtotal raises \<^verbatim>\<open>OverflowError\<close>, no order is persisted and
  no identifier or total is returned.
\<close>

theorem checkout_persists_counterexample:
  "list_all valid_item (req_items (mk_request huge_items))
   \<and> checkout (Some empty_database) (mk_request huge_items) =
       (Inl OverflowError, Some empty_database)"
proof -
  have "totals huge_items = Inl OverflowError"
    using float_of_int_overflow by (simp add: totals_def huge_items_def)
  moreover have "list_all valid_item huge_items"
    by (simp add: huge_items_def valid_item_def float_eval)
  ultimately show ?thesis
    by (simp add: checkout_def mk_request_def)
qed

text \<open>
  Claim C6, amended. For every valid checkout payload whose quantities are each
  convertible to a float, the order persisted through the gateway holds exactly the items
  of the payload, in their order and unchanged (title and price as supplied), the
  customer name, the customer email and the shipping address of the payload, and the
  computed amounts; the response holds the generated identifier of that order and the
  computed total.
\<close>

theorem checkout_persists_order:
  assumes "list_all valid_item (req_items payload)"
    and "list_all (\<lambda>i. float_ok (quantity i)) (req_items payload)"
  shows "checkout (Some d) payload =
     (Inr (Checkout_response ''success'' (next_id d)
             (spec_total (spec_subtotal (req_items payload))
                (spec_tax (spec_subtotal (req_items payload))))),
      Some (d\<lparr>order_collection := order_collection d @
                [(next_id d,
                  \<lparr>customer_name = req_customer_name payload,
                   customer_email = req_customer_email payload,
                   customer_phone = None,
                   shipping_address = req_shipping_address payload,
                   items = req_items payload,
                   subtotal = spec_subtotal (req_items payload),
                   tax = spec_tax (spec_subtotal (req_items payload)),
                   total = spec_total (spec_subtotal (req_items payload))
                             (spec_tax (spec_subtotal (req_items payload)))\<rparr>)],
              next_id := Suc (next_id d)\<rparr>))"
proof -
  note t = totals_float_ok [OF assms(2)]
  from totals_nonneg [OF assms(1) t] checkout_success [OF t, of d]
  show ?thesis by simp
qed

theorem checkout_persists_order_witness:
  "list_all valid_item (req_items (mk_request example_items))
   \<and> list_all (\<lambda>i. float_ok (quantity i)) (req_items (mk_request example_items))
   \<and> checkout (Some empty_database) (mk_request example_items) =
     (Inr (Checkout_response ''success'' 0 (rnd 178185 100)),
      Some \<lparr>product_collection = [],
            order_collection =
              [(0, \<lparr>customer_name = ''Asha'', customer_email = ''asha@example.com'',
                    customer_phone = None, shipping_address = ''12 Market Road'',
                    items = example_items,
                    subtotal = rnd 1697 1, tax = rnd 8485 100, total = rnd 178185 100\<rparr>)],
            next_id = 1\<rparr>)"
proof -
  have v: "list_all valid_item (req_items (mk_request example_items))"
    by (simp add: mk_request_def example_items_valid)
  have f: "list_all (\<lambda>i. float_ok (quantity i)) (req_items (mk_request example_items))"
    by (simp add: mk_request_def example_items_ok)
  have r: "req_items (mk_request example_items) = example_items"
    by (simp add: mk_request_def)
  from checkout_persists_order [OF v f, of empty_database] v f show ?thesis
    unfolding r example_subtotal example_tax example_total
    by (simp add: empty_database_def mk_request_def)
qed

text \<open>
  Claim C10. For every checkout payload whose items satisfy the bounds of \<^verbatim>\<open>OrderItem\<close>
  (quantity at least 1, price at least 0), the checkout never fails with a validation
  error; whenever the three amounts are computed they are all at least 0, the constructor
  of \<^verbatim>\<open>Order\<close> accepts them and the checkout returns a response.
\<close>

theorem order_amounts_nonnegative:
  assumes "list_all valid_item (req_items payload)"
  shows "fst (checkout (Some d) payload) \<noteq> Inl (ValidationError errs)
         \<and> (totals (req_items payload) = Inr (sub, tx, tot) \<longrightarrow>
              fge sub fzero \<and> fge tx fzero \<and> fge tot fzero
              \<and> (\<exists>r. fst (checkout (Some d) payload) = Inr r))"
proof (cases "totals (req_items payload)")
  case (Inl e)
  then have "e = OverflowError"
    by (auto simp: totals_def Let_def dest: sum_loop_error split: sum.splits)
  with Inl show ?thesis
    by (simp add: checkout_def)
next
  case (Inr t)
  obtain s x y where t: "t = (s, x, y)"
    by (cases t) auto
  note tt = Inr [unfolded t]
  from totals_nonneg [OF assms tt] have nn: "fge s fzero" "fge x fzero" "fge y fzero"
    by simp_all
  from checkout_success [OF tt nn, of d] nn tt show ?thesis
    by auto
qed

theorem order_amounts_nonnegative_witness:
  "list_all valid_item (req_items (mk_request example_items))
   \<and> totals (req_items (mk_request example_items)) = Inr (rnd 1697 1, rnd 8485 100, rnd 178185 100)
   \<and> fst (checkout (Some empty_database) (mk_request example_items)) \<noteq> Inl (ValidationError [])
   \<and> fge (rnd 1697 1) fzero \<and> fge (rnd 8485 100) fzero \<and> fge (rnd 178185 100) fzero"
proof -
  have v: "list_all valid_item (req_items (mk_request example_items))"
    by (simp add: mk_request_def example_items_valid)
  have t: "totals (req_items (mk_request example_items)) =
      Inr (rnd 1697 1, rnd 8485 100, rnd 178185 100)"
    by (simp add: mk_request_def example_totals)
  from order_amounts_nonnegative [OF v, of empty_database "[]" "rnd 1697 1" "rnd 8485 100" "rnd 178185 100"]
    v t show ?thesis by simp
qed

end
